theory Spec2Isabelle
  imports Complex_Main
begin

section \<open>JavaScript values\<close>

text \<open>
  The graph payload, the illicit-address list and the community-detection response reach
  \<^verbatim>\<open>GraphRenderer.js\<close> as parsed JSON. A value is one of JavaScript's primitives, an
  array, an object (its own enumerable properties, in order) or a function. Numbers are
  kept as exact rationals. Two parsed containers are never the same reference, so strict
  equality between two arrays, two objects or two functions is false.
\<close>

datatype jsval =
    JUndefined
  | JNull
  | JBool bool
  | JNum rat
  | JStr string
  | JArr "jsval list"
  | JObj "(string \<times> jsval) list"
  | JFun

fun truthy :: "jsval \<Rightarrow> bool" where
  "truthy JUndefined = False"
| "truthy JNull = False"
| "truthy (JBool b) = b"
| "truthy (JNum r) = (r \<noteq> 0)"
| "truthy (JStr s) = (s \<noteq> [])"
| "truthy (JArr xs) = True"
| "truthy (JObj kvs) = True"
| "truthy JFun = True"

text \<open>\<^verbatim>\<open>a || b\<close>.\<close>

definition js_or :: "jsval \<Rightarrow> jsval \<Rightarrow> jsval" where
  "js_or a b = (if truthy a then a else b)"

text \<open>
  \<^verbatim>\<open>v.k\<close> for a property the code names in its text, on a value that is neither \<^verbatim>\<open>null\<close>
  nor \<^verbatim>\<open>undefined\<close>: the own property of a parsed object, \<^verbatim>\<open>undefined\<close> otherwise. The names
  the code reads this way (\<^verbatim>\<open>nodes\<close>, \<^verbatim>\<open>edges\<close>, \<^verbatim>\<open>id\<close>, \<^verbatim>\<open>label\<close>, \<^verbatim>\<open>color\<close>, \<^verbatim>\<open>x\<close>, \<^verbatim>\<open>y\<close>,
  \<^verbatim>\<open>source\<close>, \<^verbatim>\<open>target\<close>, \<^verbatim>\<open>weight\<close>, \<^verbatim>\<open>size\<close>, \<^verbatim>\<open>success\<close>, \<^verbatim>\<open>data\<close>, \<^verbatim>\<open>partition\<close>,
  \<^verbatim>\<open>num_communities\<close>, \<^verbatim>\<open>modularity\<close>) are members of no built-in prototype, so nothing is
  inherited under them. The one read under a computed name, \<^verbatim>\<open>partition[d.id]\<close>, is not
  modelled by this function but by \<open>partition_read\<close> below.
\<close>

fun js_get :: "jsval \<Rightarrow> string \<Rightarrow> jsval" where
  "js_get (JObj kvs) k = (case map_of kvs k of Some v \<Rightarrow> v | None \<Rightarrow> JUndefined)"
| "js_get _ k = JUndefined"

text \<open>\<^verbatim>\<open>a === b\<close>.\<close>

fun strict_eq :: "jsval \<Rightarrow> jsval \<Rightarrow> bool" where
  "strict_eq JUndefined JUndefined = True"
| "strict_eq JNull JNull = True"
| "strict_eq (JBool a) (JBool b) = (a = b)"
| "strict_eq (JNum a) (JNum b) = (a = b)"
| "strict_eq (JStr a) (JStr b) = (a = b)"
| "strict_eq _ _ = False"

text \<open>\<^verbatim>\<open>Object.entries(v)\<close> for the objects that reach it.\<close>

fun entries :: "jsval \<Rightarrow> (string \<times> jsval) list" where
  "entries (JObj kvs) = kvs"
| "entries _ = []"

section \<open>The graph builder: \<^verbatim>\<open>initializeGraph\<close>\<close>

record vnode =
  n_id :: string
  n_label :: jsval
  n_size :: rat
  n_color :: jsval
  n_x :: jsval
  n_y :: jsval
  n_type :: string
  n_attrs :: "(string \<times> jsval) list"

record vedge =
  e_source :: jsval
  e_target :: jsval
  e_weight :: jsval
  e_color :: jsval
  e_size :: jsval
  e_type :: string
  e_attrs :: "(string \<times> jsval) list"

record graph_model =
  g_nodes :: "vnode list"
  g_edges :: "vedge list"

text \<open>
  \<^verbatim>\<open>(graphData.nodes || [])\<close> followed by \<^verbatim>\<open>.filter\<close>: a falsy value stands for the empty
  array, an array for itself, and any other truthy value has no \<^verbatim>\<open>filter\<close> method, so the
  call throws (\<open>None\<close>).
\<close>

definition array_or_empty :: "jsval \<Rightarrow> jsval list option" where
  "array_or_empty v =
     (if \<not> truthy v then Some []
      else case v of JArr xs \<Rightarrow> Some xs | _ \<Rightarrow> None)"

definition node_exclude :: "string list" where
  "node_exclude = [''type'', ''id'', ''label'', ''size'', ''color'', ''x'', ''y'']"

definition edge_exclude :: "string list" where
  "edge_exclude = [''source'', ''target'', ''weight'', ''color'', ''size'', ''type'', ''id'']"

definition extra_attrs :: "string list \<Rightarrow> jsval \<Rightarrow> (string \<times> jsval) list" where
  "extra_attrs exclude v =
     filter (\<lambda>(key, val). key \<notin> set exclude \<and> val \<noteq> JUndefined \<and> val \<noteq> JNull \<and> val \<noteq> JFun)
       (entries v)"

definition keep_node :: "jsval \<Rightarrow> bool" where
  "keep_node n = (truthy n \<and> (case js_get n ''id'' of JStr s \<Rightarrow> True | _ \<Rightarrow> False))"

text \<open>
  \<^verbatim>\<open>Math.random()\<close> is a parameter: \<open>rnd k\<close> is the \<open>k\<close>-th number a call of the builder
  draws. \<^verbatim>\<open>n.x ?? Math.random() * 1000\<close> draws only when the payload gives no coordinate;
  the result is the coordinate and the number of draws made so far.
\<close>

definition coordinate :: "(nat \<Rightarrow> rat) \<Rightarrow> nat \<Rightarrow> jsval \<Rightarrow> jsval \<times> nat" where
  "coordinate rnd k v =
     (if v = JUndefined \<or> v = JNull then (JNum (rnd k * 1000), Suc k) else (v, k))"

text \<open>
  The object the \<^verbatim>\<open>map\<close> callback makes of a kept node, its \<^verbatim>\<open>x\<close> before its \<^verbatim>\<open>y\<close>, and the
  whole \<^verbatim>\<open>map\<close> over the kept nodes in order.
\<close>

definition make_node :: "(nat \<Rightarrow> rat) \<Rightarrow> nat \<Rightarrow> jsval \<Rightarrow> vnode \<times> nat" where
  "make_node rnd k n =
     (let (x, k1) = coordinate rnd k (js_get n ''x'');
          (y, k2) = coordinate rnd k1 (js_get n ''y'')
      in (\<lparr> n_id = (case js_get n ''id'' of JStr s \<Rightarrow> s | _ \<Rightarrow> []),
            n_label = js_or (js_get n ''label'') (js_get n ''id''),
            n_size = 8,
            n_color = js_or (js_get n ''color'') (JStr ''#6366f1''),
            n_x = x,
            n_y = y,
            n_type = ''circle'',
            n_attrs = extra_attrs node_exclude n \<rparr>, k2))"

fun make_nodes :: "(nat \<Rightarrow> rat) \<Rightarrow> nat \<Rightarrow> jsval list \<Rightarrow> vnode list" where
  "make_nodes rnd k [] = []"
| "make_nodes rnd k (n # ns) = (let (d, k') = make_node rnd k n in d # make_nodes rnd k' ns)"

definition keep_edge :: "jsval \<Rightarrow> bool" where
  "keep_edge e =
     (truthy e \<and> truthy (js_get e ''source'') \<and> truthy (js_get e ''target'')
      \<and> \<not> strict_eq (js_get e ''source'') (js_get e ''target''))"

definition make_edge :: "jsval \<Rightarrow> vedge" where
  "make_edge e =
     \<lparr> e_source = js_get e ''source'',
       e_target = js_get e ''target'',
       e_weight = js_or (js_get e ''weight'') (JNum 1),
       e_color = js_or (js_get e ''color'') (JStr ''#94a3b8''),
       e_size = js_or (js_get e ''size'') (JNum 1),
       e_type = ''line'',
       e_attrs = extra_attrs edge_exclude e \<rparr>"

text \<open>
  The three ways \<^verbatim>\<open>initializeGraph\<close> ends: it returns the model, it returns \<^verbatim>\<open>null\<close> at
  once (no data or no container), or the body throws and the handler reports the error
  and returns \<^verbatim>\<open>null\<close>.
\<close>

datatype build_result = Built graph_model | NotStarted | BuildFailed

definition initializeGraph :: "bool \<Rightarrow> (nat \<Rightarrow> rat) \<Rightarrow> jsval \<Rightarrow> build_result" where
  "initializeGraph container rnd graphData =
     (if \<not> truthy graphData \<or> \<not> container then NotStarted
      else case array_or_empty (js_get graphData ''nodes'') of
        None \<Rightarrow> BuildFailed
      | Some ns \<Rightarrow>
          (case array_or_empty (js_get graphData ''edges'') of
             None \<Rightarrow> BuildFailed
           | Some es \<Rightarrow>
               Built \<lparr> g_nodes = make_nodes rnd 0 (filter keep_node ns),
                       g_edges = map make_edge (filter keep_edge es) \<rparr>))"

text \<open>The payloads used as concrete inputs below.\<close>

definition raw_dangling :: jsval where
  "raw_dangling =
     JObj [(''nodes'', JArr [JObj [(''id'', JStr ''A'')]]),
           (''edges'', JArr [JObj [(''source'', JStr ''A''), (''target'', JStr ''B'')]])]"

definition raw_weights :: jsval where
  "raw_weights =
     JObj [(''nodes'', JArr [JObj [(''id'', JStr ''A'')], JObj [(''id'', JStr ''B'')]]),
           (''edges'', JArr [JObj [(''source'', JStr ''A''), (''target'', JStr ''B''),
                                   (''weight'', JNum 0)],
                             JObj [(''source'', JStr ''B''), (''target'', JStr ''A'')],
                             JObj [(''source'', JStr ''A''), (''target'', JStr ''B''),
                                   (''weight'', JNum (- 3))]])]"

definition raw_half_weight :: jsval where
  "raw_half_weight =
     JObj [(''nodes'', JArr [JObj [(''id'', JStr ''A'')], JObj [(''id'', JStr ''B'')]]),
           (''edges'', JArr [JObj [(''source'', JStr ''A''), (''target'', JStr ''B''),
                                   (''weight'', JNum (1 / 2))]])]"

section \<open>Rendering: the attribute callbacks of \<^verbatim>\<open>initializeD3\<close>\<close>

text \<open>
  \<^verbatim>\<open>d.balance\<close>, \<^verbatim>\<open>d.total_input_value\<close>: a field of the datum that \<^verbatim>\<open>initializeGraph\<close> copied
  from the payload.
\<close>

definition attr :: "vnode \<Rightarrow> string \<Rightarrow> jsval" where
  "attr d k = (case map_of (n_attrs d) k of Some v \<Rightarrow> v | None \<Rightarrow> JUndefined)"

text \<open>
  JavaScript's conversion of an operand to a number. \<open>None\<close> is \<^verbatim>\<open>NaN\<close>. The conversion of
  strings, arrays, objects and functions belongs to the language runtime and is the
  parameter \<open>tn\<close>.
\<close>

definition to_number :: "(jsval \<Rightarrow> rat option) \<Rightarrow> jsval \<Rightarrow> rat option" where
  "to_number tn v =
     (case v of
        JNum r \<Rightarrow> Some r
      | JBool b \<Rightarrow> Some (if b then 1 else 0)
      | JNull \<Rightarrow> Some 0
      | JUndefined \<Rightarrow> None
      | _ \<Rightarrow> tn v)"

text \<open>\<^verbatim>\<open>Math.max(lo, Math.min(hi, v))\<close>; \<^verbatim>\<open>NaN\<close> propagates.\<close>

definition clamp_num :: "rat \<Rightarrow> rat \<Rightarrow> rat option \<Rightarrow> rat option" where
  "clamp_num lo hi v = (case v of None \<Rightarrow> None | Some r \<Rightarrow> Some (max lo (min hi r)))"

text \<open>\<^verbatim>\<open>v > 0\<close>.\<close>

definition js_positive :: "(jsval \<Rightarrow> rat option) \<Rightarrow> jsval \<Rightarrow> bool" where
  "js_positive tn v = (case to_number tn v of None \<Rightarrow> False | Some r \<Rightarrow> 0 < r)"

text \<open>
  An entry of the illicit-address list as the threat-intelligence collaborator supplies
  it. The tooltip also reads an optional activity analysis, which no colour depends on
  and which is left out.
\<close>

record illicit_entry =
  i_address :: string
  i_risk_level :: string
  i_confidence :: rat
  i_sources :: "string list"

text \<open>\<^verbatim>\<open>illicitAddresses.some(illicit => illicit.address === d.id)\<close>.\<close>

definition isIllicit :: "illicit_entry list \<Rightarrow> vnode \<Rightarrow> bool" where
  "isIllicit illicitAddresses d = list_ex (\<lambda>illicit. i_address illicit = n_id d) illicitAddresses"

definition node_r :: "(jsval \<Rightarrow> rat option) \<Rightarrow> vnode \<Rightarrow> rat option" where
  "node_r tn d =
     (if n_type d = ''address'' then
        clamp_num 6 15
          (map_option (\<lambda>b. b / 1000000000 + 6) (to_number tn (js_or (attr d ''balance'') (JNum 0))))
      else if n_type d = ''transaction'' then
        clamp_num 4 12
          (map_option (\<lambda>b. b / 1000000000 + 4)
             (to_number tn (js_or (attr d ''total_input_value'') (JNum 0))))
      else Some (if n_size d \<noteq> 0 then n_size d else 8))"

definition node_fill :: "(jsval \<Rightarrow> rat option) \<Rightarrow> illicit_entry list \<Rightarrow> vnode \<Rightarrow> jsval" where
  "node_fill tn illicitAddresses d =
     (if isIllicit illicitAddresses d then JStr ''#ef4444''
      else if n_type d = ''address'' then
        (if js_positive tn (attr d ''balance'') then JStr ''#10b981'' else JStr ''#6b7280'')
      else if n_type d = ''transaction'' then JStr ''#3b82f6''
      else js_or (n_color d) (JStr ''#6366f1''))"

definition node_stroke :: "(jsval \<Rightarrow> rat option) \<Rightarrow> illicit_entry list \<Rightarrow> vnode \<Rightarrow> jsval" where
  "node_stroke tn illicitAddresses d =
     (if isIllicit illicitAddresses d then JStr ''#dc2626''
      else if n_type d = ''address'' \<and> js_positive tn (attr d ''balance'') then JStr ''#059669''
      else if n_type d = ''transaction'' then JStr ''#1d4ed8''
      else JStr ''#111827'')"

text \<open>
  A rendered circle: the datum bound to it and its radius, fill, stroke and stroke width.
  A paint is an attribute value the code passes as it is, or the result of
  \<^verbatim>\<open>d3.color(c).darker(1)\<close>, kept symbolic.
\<close>

datatype paint = Paint jsval | Darker string

record circle =
  c_datum :: vnode
  c_r :: "rat option"
  c_fill :: paint
  c_stroke :: paint
  c_stroke_width :: rat

definition draw_circle :: "(jsval \<Rightarrow> rat option) \<Rightarrow> illicit_entry list \<Rightarrow> vnode \<Rightarrow> circle" where
  "draw_circle tn illicitAddresses d =
     \<lparr> c_datum = d,
       c_r = node_r tn d,
       c_fill = Paint (node_fill tn illicitAddresses d),
       c_stroke = Paint (node_stroke tn illicitAddresses d),
       c_stroke_width = 2 \<rparr>"

section \<open>The component's state\<close>

datatype failure = GraphInitFailed | RendererInitFailed | CommunityDetectionFailed

text \<open>
  The refs and the React state of \<^verbatim>\<open>GraphRenderer\<close>. \<open>svgRef\<close> holds the circles of the
  current drawing; \<open>width\<close> and \<open>height\<close> are the container's client size; \<open>observing\<close>
  says that a \<^verbatim>\<open>ResizeObserver\<close> is connected; \<open>mountTimer\<close> and \<open>layoutTimer\<close> say that the
  300 ms timeout of the load effect and the 500 ms timeout of \<^verbatim>\<open>runForceAtlas2\<close> are
  pending. \<open>inits\<close> counts the completed runs of \<^verbatim>\<open>initializeD3\<close> and \<open>pending\<close> lists the
  community-detection requests in flight, numbered in the order they were sent
  (\<open>issued\<close> is the number sent so far); the code keeps neither.
\<close>

record component =
  graphRef :: graph_model
  svgRef :: "circle list option"
  simulationRef :: bool
  width :: nat
  height :: nat
  containerReady :: bool
  observing :: bool
  isLoading :: bool
  layoutRunning :: bool
  error :: "failure option"
  communities :: "jsval option"
  mountTimer :: bool
  layoutTimer :: bool
  inits :: nat
  issued :: nat
  pending :: "nat list"

definition mounted :: "nat \<Rightarrow> nat \<Rightarrow> component" where
  "mounted w h =
     \<lparr> graphRef = \<lparr> g_nodes = [], g_edges = [] \<rparr>,
       svgRef = None,
       simulationRef = False,
       width = w,
       height = h,
       containerReady = False,
       observing = False,
       isLoading = False,
       layoutRunning = False,
       error = None,
       communities = None,
       mountTimer = False,
       layoutTimer = False,
       inits = 0,
       issued = 0,
       pending = [] \<rparr>"

text \<open>
  \<^verbatim>\<open>d3.forceLink(graph.edges).id(d => d.id)\<close>, when the simulation takes it, replaces every
  endpoint that is not an object by the node of that id and throws \<^verbatim>\<open>node not found\<close> when
  there is none (d3-force).
\<close>

definition endpoint_found :: "vnode list \<Rightarrow> jsval \<Rightarrow> bool" where
  "endpoint_found ns v =
     (case v of
        JStr s \<Rightarrow> s \<in> set (map n_id ns)
      | JArr xs \<Rightarrow> True
      | JObj kvs \<Rightarrow> True
      | _ \<Rightarrow> False)"

definition links_resolve :: "graph_model \<Rightarrow> bool" where
  "links_resolve g =
     list_all (\<lambda>e. endpoint_found (g_nodes g) (e_source e) \<and> endpoint_found (g_nodes g) (e_target e))
       (g_edges g)"

text \<open>
  While \<^verbatim>\<open>error\<close> is set the component renders its error view, which has neither the
  container nor the buttons, and \<^verbatim>\<open>containerRef.current\<close> is \<^verbatim>\<open>null\<close>. A handler sees the
  render of the state it starts from.
\<close>

definition containerMounted :: "component \<Rightarrow> bool" where
  "containerMounted st = (error st = None)"

text \<open>
  \<^verbatim>\<open>initializeD3(graph)\<close>: the new state and whether an svg was returned. The graph it is
  given is always an object. Without a container, or with a container of zero width or
  height, it returns \<^verbatim>\<open>null\<close> before touching anything. Otherwise it draws the circles;
  if the link force then throws, the handler reports the error and returns \<^verbatim>\<open>null\<close>,
  leaving the drawing in place without a simulation.
\<close>

definition initializeD3 ::
  "bool \<Rightarrow> (jsval \<Rightarrow> rat option) \<Rightarrow> illicit_entry list \<Rightarrow> graph_model \<Rightarrow> component
     \<Rightarrow> component \<times> bool" where
  "initializeD3 container tn illicitAddresses graph st =
     (if \<not> container then (st, False)
      else if width st = 0 \<or> height st = 0 then (st, False)
      else
        let drawn = st \<lparr> svgRef := Some (map (draw_circle tn illicitAddresses) (g_nodes graph)) \<rparr>
        in if \<not> links_resolve graph then (drawn \<lparr> error := Some RendererInitFailed \<rparr>, False)
           else (drawn \<lparr> simulationRef := True, containerReady := True, inits := inits drawn + 1 \<rparr>, True))"

text \<open>
  The load effect (\<^verbatim>\<open>useEffect\<close> on \<^verbatim>\<open>graphData\<close>). \<^verbatim>\<open>setError(null)\<close> takes effect with the
  next render, so the container is the one of the state the effect starts from. The
  observer is connected and the 300 ms timer is set only when \<^verbatim>\<open>initializeD3\<close> returned
  an svg.
\<close>

definition load_effect ::
  "(jsval \<Rightarrow> rat option) \<Rightarrow> illicit_entry list \<Rightarrow> (nat \<Rightarrow> rat) \<Rightarrow> jsval \<Rightarrow> component \<Rightarrow> component" where
  "load_effect tn illicitAddresses rnd graphData st =
     (if \<not> truthy graphData then st
      else
        let container = containerMounted st;
            st1 = st \<lparr> error := None, containerReady := False \<rparr>
        in case initializeGraph container rnd graphData of
             NotStarted \<Rightarrow> st1
           | BuildFailed \<Rightarrow> st1 \<lparr> error := Some GraphInitFailed \<rparr>
           | Built graph \<Rightarrow>
               (let (st2, svg) =
                      initializeD3 container tn illicitAddresses graph (st1 \<lparr> graphRef := graph \<rparr>)
                in if svg then st2 \<lparr> observing := True, mountTimer := True \<rparr> else st2))"


text \<open>
  The container changes size, or a newly connected observer reports the size it finds.
  A connected observer calls back \<^verbatim>\<open>if (graphRef.current) initializeD3(graphRef.current)\<close>;
  without one nothing runs.
\<close>

definition resize ::
  "(jsval \<Rightarrow> rat option) \<Rightarrow> illicit_entry list \<Rightarrow> nat \<Rightarrow> nat \<Rightarrow> component \<Rightarrow> component" where
  "resize tn illicitAddresses w h st =
     (let st1 = st \<lparr> width := w, height := h \<rparr>
      in if observing st1
         then fst (initializeD3 (containerMounted st1) tn illicitAddresses (graphRef st1) st1)
         else st1)"

section \<open>Community detection: \<^verbatim>\<open>runLouvainAlgorithm\<close>\<close>

text \<open>The two palettes of d3-scale-chromatic the code chooses between.\<close>

definition schemeCategory10 :: "string list" where
  "schemeCategory10 =
     [''#1f77b4'', ''#ff7f0e'', ''#2ca02c'', ''#d62728'', ''#9467bd'',
      ''#8c564b'', ''#e377c2'', ''#7f7f7f'', ''#bcbd22'', ''#17becf'']"

definition schemePaired :: "string list" where
  "schemePaired =
     [''#a6cee3'', ''#1f78b4'', ''#b2df8a'', ''#33a02c'', ''#fb9a99'', ''#e31a1c'',
      ''#fdbf6f'', ''#ff7f00'', ''#cab2d6'', ''#6a3d9a'', ''#ffff99'', ''#b15928'']"

text \<open>\<^verbatim>\<open>numCommunities <= 10 ? schemeCategory10 : schemePaired\<close>.\<close>

definition palette_for :: "(jsval \<Rightarrow> rat option) \<Rightarrow> jsval \<Rightarrow> string list" where
  "palette_for tn numCommunities =
     (case to_number tn numCommunities of
        None \<Rightarrow> schemePaired
      | Some n \<Rightarrow> if n \<le> 10 then schemeCategory10 else schemePaired)"

text \<open>
  What \<^verbatim>\<open>partition[d.id]\<close> gives, as far as the overlay uses it: whether it is
  \<^verbatim>\<open>undefined\<close>, and which key of the colour scale it is. The scale (d3-scale 4) keeps its
  domain in a map that compares \<^verbatim>\<open>null\<close>, booleans, numbers and strings by value and every
  array, object and function by reference. A parsed partition holds a reference of its
  own under each property, so the array or object read from the own property \<open>k\<close> is
  the reference \<open>OwnRef k\<close>; \<open>Foreign n\<close> is a reference that is no own property of the
  partition, numbered so that equal numbers are the same reference.
\<close>

datatype primitive = PNull | PBool bool | PNum rat | PStr string

datatype community_key = Value primitive | OwnRef string | Foreign nat

definition own_key :: "string \<Rightarrow> jsval \<Rightarrow> community_key option" where
  "own_key k v =
     (case v of
        JUndefined \<Rightarrow> None
      | JNull \<Rightarrow> Some (Value PNull)
      | JBool b \<Rightarrow> Some (Value (PBool b))
      | JNum r \<Rightarrow> Some (Value (PNum r))
      | JStr s \<Rightarrow> Some (Value (PStr s))
      | _ \<Rightarrow> Some (OwnRef k))"

text \<open>
  \<^verbatim>\<open>partition[d.id]\<close>, where the id is any string of the payload. When the partition is a
  parsed object with an own property of that name, the read gives that property. Every
  other read belongs to the language runtime: an inherited member
  (\<^verbatim>\<open>partition['constructor']\<close> is a function, not \<^verbatim>\<open>undefined\<close>), or an index or the length
  of a partition that is an array or a string. It is the parameter \<open>rt\<close>: \<open>rt part k\<close> is
  \<open>None\<close> for \<^verbatim>\<open>undefined\<close> and the key of what is found otherwise.
\<close>

definition partition_read ::
  "(jsval \<Rightarrow> string \<Rightarrow> community_key option) \<Rightarrow> jsval \<Rightarrow> string \<Rightarrow> community_key option" where
  "partition_read rt part k =
     (case part of
        JObj kvs \<Rightarrow> (case map_of kvs k of Some v \<Rightarrow> own_key k v | None \<Rightarrow> rt part k)
      | _ \<Rightarrow> rt part k)"

text \<open>
  \<^verbatim>\<open>d3.scaleOrdinal(range)\<close> is created with an empty domain. A call with a key the
  domain does not hold appends the key; the result is the range entry at the key's
  position in the domain, modulo the length of the range (d3-scale). The state of the
  scale is its domain.
\<close>

fun position :: "'a list \<Rightarrow> 'a \<Rightarrow> nat" where
  "position [] k = 0"
| "position (x # xs) k = (if x = k then 0 else Suc (position xs k))"

definition colorScale ::
  "string list \<Rightarrow> community_key list \<Rightarrow> community_key \<Rightarrow> community_key list \<times> string" where
  "colorScale rng domain k =
     (let domain' = (if k \<in> set domain then domain else domain @ [k])
      in (domain', rng ! (position domain' k mod length rng)))"

text \<open>
  The transition over \<^verbatim>\<open>selectAll('circle')\<close>, taken at its end values. The circles are
  visited in order, and each evaluates its fill callback and then its stroke callback
  against the one scale. \<open>None\<close> is the branch \<^verbatim>\<open>communityId === undefined\<close>.
\<close>

fun recolor ::
  "(jsval \<Rightarrow> string \<Rightarrow> community_key option) \<Rightarrow> string list \<Rightarrow> jsval \<Rightarrow> community_key list
     \<Rightarrow> circle list \<Rightarrow> circle list" where
  "recolor rt rng part domain [] = []"
| "recolor rt rng part domain (c # cs) =
     (case partition_read rt part (n_id (c_datum c)) of
        Some communityId \<Rightarrow>
          (let (domain1, fill) = colorScale rng domain communityId;
               (domain2, baseColor) = colorScale rng domain1 communityId
           in c \<lparr> c_fill := Paint (JStr fill), c_stroke := Darker baseColor, c_stroke_width := 5 / 2 \<rparr>
              # recolor rt rng part domain2 cs)
      | None \<Rightarrow>
          c \<lparr> c_fill := Paint (js_or (n_color (c_datum c)) (JStr ''#6366f1'')),
              c_stroke := Paint (JStr ''#111827''),
              c_stroke_width := 5 / 2 \<rparr>
          # recolor rt rng part domain cs)"

definition apply_partition ::
  "(jsval \<Rightarrow> rat option) \<Rightarrow> (jsval \<Rightarrow> string \<Rightarrow> community_key option) \<Rightarrow> jsval \<Rightarrow> circle list
     \<Rightarrow> circle list" where
  "apply_partition tn rt data circles =
     recolor rt (palette_for tn (js_get data ''num_communities'')) (js_get data ''partition'') []
       circles"

text \<open>
  What \<^verbatim>\<open>await fetch(...)\<close> and \<^verbatim>\<open>await response.json()\<close> give back: the request is
  rejected, or a response arrives with its \<^verbatim>\<open>ok\<close> flag and its body (\<open>None\<close> when the body
  is not JSON, so that \<^verbatim>\<open>response.json()\<close> rejects).
\<close>

datatype fetch_result = FetchRejected | HttpResponse bool "jsval option"

text \<open>The \<^verbatim>\<open>catch\<close> block.\<close>

definition runLouvainAlgorithm_catch :: "component \<Rightarrow> component" where
  "runLouvainAlgorithm_catch st = st \<lparr> error := Some CommunityDetectionFailed, isLoading := False \<rparr>"


text \<open>
  \<^verbatim>\<open>runLouvainAlgorithm\<close> from the point where the fetch settles. Reading a property of
  \<^verbatim>\<open>null\<close> or \<^verbatim>\<open>undefined\<close> throws, and so does \<^verbatim>\<open>data.modularity.toFixed(3)\<close> unless the
  modularity is a number; every throw lands in the \<^verbatim>\<open>catch\<close> block.
\<close>

definition runLouvainAlgorithm_resume ::
  "(jsval \<Rightarrow> rat option) \<Rightarrow> (jsval \<Rightarrow> string \<Rightarrow> community_key option) \<Rightarrow> fetch_result
     \<Rightarrow> component \<Rightarrow> component" where
  "runLouvainAlgorithm_resume tn rt res st =
     (case res of
        FetchRejected \<Rightarrow> runLouvainAlgorithm_catch st
      | HttpResponse ok body \<Rightarrow>
          (case body of
             None \<Rightarrow> runLouvainAlgorithm_catch st
           | Some result \<Rightarrow>
               if \<not> ok then runLouvainAlgorithm_catch st
               else if result = JNull \<or> result = JUndefined then runLouvainAlgorithm_catch st
               else if \<not> truthy (js_get result ''success'') then runLouvainAlgorithm_catch st
               else
                 let data = js_get result ''data''
                 in if data = JNull \<or> data = JUndefined then runLouvainAlgorithm_catch st
                    else
                      let st1 =
                            (case svgRef st of
                               None \<Rightarrow> st
                             | Some circles \<Rightarrow>
                                 if truthy (js_get data ''partition'')
                                 then st \<lparr> svgRef := Some (apply_partition tn rt data circles) \<rparr>
                                 else st);
                          st2 = st1 \<lparr> communities := Some data \<rparr>
                      in (case js_get data ''modularity'' of
                            JNum m \<Rightarrow> st2 \<lparr> isLoading := False \<rparr>
                          | _ \<Rightarrow> runLouvainAlgorithm_catch st2)))"

section \<open>The layout run: \<^verbatim>\<open>runForceAtlas2\<close>\<close>



section \<open>Events of a session\<close>

text \<open>
  The handlers run one at a time. \<open>Load\<close> is the load effect, after the cleanup of the
  one before; \<open>Resize\<close> a change of the container's size; \<open>MountTimer\<close> the effect's
  300 ms timeout; \<open>LayoutTimeout\<close> the 500 ms timeout of \<^verbatim>\<open>runForceAtlas2\<close>;
  \<open>ClickLouvain\<close> a click on the Run Louvain button, which is absent from the error view
  and disabled while \<^verbatim>\<open>isLoading || !containerReady\<close>; \<open>Arrive k res\<close> the settling of the fetch of request
  \<open>k\<close>. A timeout that is not pending and a fetch that is not in flight cannot happen,
  and leave the state as it is.
\<close>

datatype event =
    Load jsval
  | Resize nat nat
  | MountTimer
  | LayoutTimeout
  | ClickLouvain
  | Arrive nat fetch_result



section \<open>The viewport: zoom\<close>

text \<open>
  A d3 zoom behaviour clamps the scale it computes to its own scale extent,
  \<^verbatim>\<open>Math.max(scaleExtent[0], Math.min(scaleExtent[1], k))\<close>, and a behaviour made by
  \<^verbatim>\<open>d3.zoom()\<close> starts with the extent \<^verbatim>\<open>[0, Infinity]\<close> and no listener (d3-zoom). The upper
  bound \<open>None\<close> is \<^verbatim>\<open>Infinity\<close>.
\<close>

definition clamp_scale :: "rat \<times> rat option \<Rightarrow> rat \<Rightarrow> rat" where
  "clamp_scale scaleExtent k =
     max (fst scaleExtent) (case snd scaleExtent of None \<Rightarrow> k | Some hi \<Rightarrow> min hi k)"

text \<open>
  The behaviour \<^verbatim>\<open>initializeD3\<close> attaches to the svg, \<^verbatim>\<open>d3.zoom().scaleExtent([0.1, 10])\<close>
  with its \<^verbatim>\<open>zoom\<close> listener, and the behaviour \<^verbatim>\<open>zoomIn\<close>, \<^verbatim>\<open>zoomOut\<close> and \<^verbatim>\<open>resetZoom\<close> each
  make for their one call, \<^verbatim>\<open>d3.zoom()\<close>.
\<close>

definition attached_extent :: "rat \<times> rat option" where
  "attached_extent = (1 / 10, Some 10)"

definition fresh_extent :: "rat \<times> rat option" where
  "fresh_extent = (0, None)"

text \<open>
  \<open>zoom_k\<close> is the scale of the transform kept on the svg element, which every zoom
  operation reads and writes; \<open>zoomLevel\<close> is the React state the listener of the attached
  behaviour sets, together with the transform of the drawing. Translations are left out.
\<close>

record viewport =
  zoom_k :: rat
  zoomLevel :: rat

definition initial_viewport :: viewport where
  "initial_viewport = \<lparr> zoom_k = 1, zoomLevel = 1 \<rparr>"

text \<open>
  \<open>Wheel f\<close> is a wheel, pinch or double-click gesture on the svg that asks for the scale
  to be multiplied by \<open>f\<close>: the attached behaviour clamps and, when the scale changes,
  stores it and calls the listener. \<open>Pan\<close> is a mouse drag on the svg: the attached
  behaviour keeps the stored scale and calls the listener. The three buttons go through
  a fresh behaviour, which stores the transform and has no listener to call.
\<close>

datatype gesture = Wheel rat | Pan | ZoomIn | ZoomOut | ResetZoom

definition scaleBy :: "rat \<times> rat option \<Rightarrow> rat \<Rightarrow> rat \<Rightarrow> rat" where
  "scaleBy scaleExtent k0 k = clamp_scale scaleExtent (k0 * k)"

fun zoom_step :: "gesture \<Rightarrow> viewport \<Rightarrow> viewport" where
  "zoom_step (Wheel f) v =
     (let k = scaleBy attached_extent (zoom_k v) f
      in if k = zoom_k v then v else \<lparr> zoom_k = k, zoomLevel = k \<rparr>)"
| "zoom_step Pan v = v \<lparr> zoomLevel := zoom_k v \<rparr>"
| "zoom_step ZoomIn v = v \<lparr> zoom_k := scaleBy fresh_extent (zoom_k v) (12 / 10) \<rparr>"
| "zoom_step ZoomOut v = v \<lparr> zoom_k := scaleBy fresh_extent (zoom_k v) (1 / (12 / 10)) \<rparr>"
| "zoom_step ResetZoom v = v \<lparr> zoom_k := 1 \<rparr>"

definition zoom_run :: "gesture list \<Rightarrow> viewport \<Rightarrow> viewport" where
  "zoom_run gs v = fold zoom_step gs v"

section \<open>The force simulation and the drag handlers\<close>

text \<open>
  A node as the simulation sees it: position, velocity and the fixed position
  \<^verbatim>\<open>fx\<close>, \<^verbatim>\<open>fy\<close> (\<open>None\<close> is \<^verbatim>\<open>null\<close>).
\<close>

record sim_node =
  p_x :: rat
  p_y :: rat
  p_vx :: rat
  p_vy :: rat
  p_fx :: "rat option"
  p_fy :: "rat option"

text \<open>The three handlers of \<^verbatim>\<open>d3.drag()\<close> in \<^verbatim>\<open>initializeD3\<close>, on the datum of the dragged circle.\<close>

definition dragstarted :: "sim_node \<Rightarrow> sim_node" where
  "dragstarted d = d \<lparr> p_fx := Some (p_x d), p_fy := Some (p_y d) \<rparr>"

definition dragged :: "rat \<times> rat \<Rightarrow> sim_node \<Rightarrow> sim_node" where
  "dragged event d = d \<lparr> p_fx := Some (fst event), p_fy := Some (snd event) \<rparr>"

definition dragended :: "sim_node \<Rightarrow> sim_node" where
  "dragended d = d \<lparr> p_fx := None, p_fy := None \<rparr>"

definition on_node :: "nat \<Rightarrow> (sim_node \<Rightarrow> sim_node) \<Rightarrow> sim_node list \<Rightarrow> sim_node list" where
  "on_node i handler ns = (if i < length ns then ns[i := handler (ns ! i)] else ns)"

text \<open>
  Modelled from the spec: the forces of one tick of the layout engine, which the code
  delegates to \<^verbatim>\<open>d3.forceSimulation\<close> and which is not part of the repository. They are a
  parameter \<open>F\<close>: \<open>F ns i\<close> is the position and velocity node \<open>i\<close> has once the link,
  charge, centre and collision forces have acted on the nodes \<open>ns\<close>. Forces never write
  \<^verbatim>\<open>fx\<close> or \<^verbatim>\<open>fy\<close>.
\<close>

definition apply_forces ::
  "(sim_node list \<Rightarrow> nat \<Rightarrow> rat \<times> rat \<times> rat \<times> rat) \<Rightarrow> sim_node list \<Rightarrow> sim_node list" where
  "apply_forces F ns =
     map (\<lambda>(i, n). case F ns i of (a, b, c, d) \<Rightarrow> n \<lparr> p_x := a, p_y := b, p_vx := c, p_vy := d \<rparr>)
       (enumerate 0 ns)"

text \<open>
  Modelled from the spec: the position update that ends a tick of the layout engine
  (\<^verbatim>\<open>d3.forceSimulation\<close>, not part of the repository). A node without a fixed
  coordinate moves by its decayed velocity; a node with one is put there with velocity
  zero, so that a pinned node is excluded from the force updates.
\<close>

definition integrate :: "rat \<Rightarrow> sim_node \<Rightarrow> sim_node" where
  "integrate velocityDecay n =
     (let n1 = (case p_fx n of
                  None \<Rightarrow> n \<lparr> p_vx := p_vx n * velocityDecay, p_x := p_x n + p_vx n * velocityDecay \<rparr>
                | Some f \<Rightarrow> n \<lparr> p_x := f, p_vx := 0 \<rparr>)
      in case p_fy n1 of
           None \<Rightarrow> n1 \<lparr> p_vy := p_vy n1 * velocityDecay, p_y := p_y n1 + p_vy n1 * velocityDecay \<rparr>
         | Some f \<Rightarrow> n1 \<lparr> p_y := f, p_vy := 0 \<rparr>)"

text \<open>
  Modelled from the spec: one tick of the layout engine (\<^verbatim>\<open>d3.forceSimulation\<close>, not
  part of the repository): the forces act, then every node's position is updated. The
  \<^verbatim>\<open>tick\<close> listener of \<^verbatim>\<open>initializeD3\<close> then draws every circle at its node's position.
\<close>

definition tick ::
  "rat \<Rightarrow> (sim_node list \<Rightarrow> nat \<Rightarrow> rat \<times> rat \<times> rat \<times> rat) \<Rightarrow> sim_node list \<Rightarrow> sim_node list" where
  "tick velocityDecay F ns = map (integrate velocityDecay) (apply_forces F ns)"

text \<open>Successive ticks, each with the forces of its moment.\<close>

definition ticks ::
  "rat \<Rightarrow> (sim_node list \<Rightarrow> nat \<Rightarrow> rat \<times> rat \<times> rat \<times> rat) list \<Rightarrow> sim_node list \<Rightarrow> sim_node list" where
  "ticks velocityDecay Fs ns = fold (tick velocityDecay) Fs ns"

section \<open>The order in which a scale meets its keys\<close>

text \<open>
  The domain a scale ends with when it starts from \<open>domain\<close> and is called with the keys
  \<open>ks\<close> in order, and the keys the circles of a drawing present to the scale of one
  overlay: what \<^verbatim>\<open>partition[d.id]\<close> gives for each circle where that is not \<^verbatim>\<open>undefined\<close>, in
  the circles' order.
\<close>

fun first_seen :: "community_key list \<Rightarrow> community_key list \<Rightarrow> community_key list" where
  "first_seen domain [] = domain"
| "first_seen domain (k # ks) = first_seen (if k \<in> set domain then domain else domain @ [k]) ks"

definition community_ids ::
  "(jsval \<Rightarrow> string \<Rightarrow> community_key option) \<Rightarrow> jsval \<Rightarrow> circle list \<Rightarrow> community_key list" where
  "community_ids rt part circles =
     List.map_filter (\<lambda>c. partition_read rt part (n_id (c_datum c))) circles"

section \<open>Concrete sessions\<close>

text \<open>
  A payload with an address node \<open>A\<close> holding a balance, a transaction node \<open>B\<close> and one
  edge between them; a runtime whose number conversion gives \<^verbatim>\<open>NaN\<close> for every string and
  container; an illicit-address list that flags \<open>A\<close>.
\<close>

definition raw_pair :: jsval where
  "raw_pair =
     JObj [(''nodes'', JArr [JObj [(''id'', JStr ''A''), (''type'', JStr ''address''),
                                   (''balance'', JNum 9000000000)],
                             JObj [(''id'', JStr ''B''), (''type'', JStr ''transaction''),
                                   (''total_input_value'', JNum 3000000000)]]),
           (''edges'', JArr [JObj [(''source'', JStr ''A''), (''target'', JStr ''B''),
                                   (''weight'', JNum 5)]])]"

definition no_coercion :: "jsval \<Rightarrow> rat option" where
  "no_coercion v = None"


definition inherits_constructor :: "jsval \<Rightarrow> string \<Rightarrow> community_key option" where
  "inherits_constructor part k = (if k = ''constructor'' then Some (Foreign 0) else None)"

definition flagged_A :: "illicit_entry list" where
  "flagged_A =
     [\<lparr> i_address = ''A'', i_risk_level = ''high'', i_confidence = 9 / 10,
        i_sources = [''chainabuse''] \<rparr>]"

text \<open>The component after the load effect on a container of 800 by 600.\<close>

definition ready :: "illicit_entry list \<Rightarrow> component" where
  "ready illicitAddresses = load_effect no_coercion illicitAddresses (\<lambda>k. 0) raw_pair (mounted 800 600)"

text \<open>
  Responses of the service: two communities with a modularity; one community; two
  communities without a modularity; a refusal. \<open>data_A\<close> is a result whose partition
  covers \<open>A\<close> only.
\<close>

definition data_A :: jsval where
  "data_A =
     JObj [(''partition'', JObj [(''A'', JNum 0)]),
           (''num_communities'', JNum 1),
           (''modularity'', JNum 0)]"

definition data_two :: jsval where
  "data_two =
     JObj [(''partition'', JObj [(''A'', JNum 0), (''B'', JNum 1)]),
           (''num_communities'', JNum 2),
           (''modularity'', JNum (42 / 100))]"

definition louvain_two :: fetch_result where
  "louvain_two = HttpResponse True (Some (JObj [(''success'', JBool True), (''data'', data_two)]))"



definition data_no_modularity :: jsval where
  "data_no_modularity =
     JObj [(''partition'', JObj [(''A'', JNum 0), (''B'', JNum 1)]),
           (''num_communities'', JNum 2)]"

definition louvain_no_modularity :: fetch_result where
  "louvain_no_modularity =
     HttpResponse True (Some (JObj [(''success'', JBool True), (''data'', data_no_modularity)]))"

definition louvain_refused :: fetch_result where
  "louvain_refused =
     HttpResponse True (Some (JObj [(''success'', JBool False), (''error'', JStr ''failed'')]))"



text \<open>
  The circle \<^verbatim>\<open>initializeD3\<close> draws for a node that the payload gives as an id and nothing
  else.
\<close>

definition circle_of :: "string \<Rightarrow> circle" where
  "circle_of s = draw_circle no_coercion [] (fst (make_node (\<lambda>k. 0) 0 (JObj [(''id'', JStr s)])))"

text \<open>Two simulation nodes and forces that push every node the same way.\<close>

definition two_nodes :: "sim_node list" where
  "two_nodes =
     [\<lparr> p_x = 0, p_y = 0, p_vx = 1, p_vy = 1, p_fx = None, p_fy = None \<rparr>,
      \<lparr> p_x = 10, p_y = 10, p_vx = 0, p_vy = 0, p_fx = None, p_fy = None \<rparr>]"

definition drift :: "sim_node list \<Rightarrow> nat \<Rightarrow> rat \<times> rat \<times> rat \<times> rat" where
  "drift ns i = (p_x (ns ! i) + 3, p_y (ns ! i) + 4, 1, 2)"

section \<open>Properties of the graph builder\<close>

lemma initializeGraph_Built:
  assumes "initializeGraph c rnd raw = Built g"
  obtains ns es where
    "array_or_empty (js_get raw ''nodes'') = Some ns"
    "array_or_empty (js_get raw ''edges'') = Some es"
    "g_nodes g = make_nodes rnd 0 (filter keep_node ns)"
    "g_edges g = map make_edge (filter keep_edge es)"
  using assms
  by (auto simp: initializeGraph_def split: if_splits option.splits)

lemma make_node_type:
  "n_type (fst (make_node rnd k n)) = ''circle'' \<and> n_size (fst (make_node rnd k n)) = 8"
  by (simp add: make_node_def Let_def split: prod.split)

lemma make_nodes_type:
  "d \<in> set (make_nodes rnd k ns) \<Longrightarrow> n_type d = ''circle'' \<and> n_size d = 8"
proof (induction ns arbitrary: k)
  case Nil
  then show ?case by simp
next
  case (Cons n ns)
  obtain d' k' where mk: "make_node rnd k n = (d', k')" by (cases "make_node rnd k n")
  with Cons.prems have "d = d' \<or> d \<in> set (make_nodes rnd k' ns)" by simp
  then show ?case
  proof
    assume "d = d'"
    with mk make_node_type [of rnd k n] show ?thesis by simp
  next
    assume "d \<in> set (make_nodes rnd k' ns)"
    then show ?thesis by (rule Cons.IH)
  qed
qed

lemma keep_edge_endpoints:
  assumes "keep_edge r"
  shows "truthy (e_source (make_edge r)) \<and> truthy (e_target (make_edge r))
     \<and> \<not> strict_eq (e_source (make_edge r)) (e_target (make_edge r))"
  using assms by (simp add: keep_edge_def make_edge_def)

lemma raw_dangling_edges:
  "array_or_empty (js_get raw_dangling ''edges'')
     = Some [JObj [(''source'', JStr ''A''), (''target'', JStr ''B'')]]"
  by (simp add: raw_dangling_def array_or_empty_def)

lemma raw_weights_edges:
  "array_or_empty (js_get raw_weights ''edges'')
     = Some [JObj [(''source'', JStr ''A''), (''target'', JStr ''B''), (''weight'', JNum 0)],
             JObj [(''source'', JStr ''B''), (''target'', JStr ''A'')],
             JObj [(''source'', JStr ''A''), (''target'', JStr ''B''), (''weight'', JNum (- 3))]]"
  by (simp add: raw_weights_def array_or_empty_def)

text \<open>
  C1, as stated, fails: the edge filter never looks at the node list. From the payload
  with the one node \<open>A\<close> and the one edge from \<open>A\<close> to \<open>B\<close>, the builder returns a model
  whose only node is \<open>A\<close> and which keeps the edge to \<open>B\<close>.
\<close>

theorem initializeGraph_keeps_dangling_edge:
  "\<exists>g. initializeGraph True (\<lambda>k. 0) raw_dangling = Built g
     \<and> map n_id (g_nodes g) = [''A'']
     \<and> map e_source (g_edges g) = [JStr ''A'']
     \<and> map e_target (g_edges g) = [JStr ''B'']"
  by (simp add: initializeGraph_def raw_dangling_def array_or_empty_def keep_node_def
      keep_edge_def make_node_def coordinate_def make_edge_def Let_def)

text \<open>
  C1, amended: the edges of a model built by \<^verbatim>\<open>initializeGraph\<close> are, in order, exactly the
  edges of the payload that have a truthy source and a truthy target that are not
  strictly equal, with these endpoints unchanged; the nodes play no part in the choice,
  so an edge whose endpoint names no retained node is kept. Hence every edge of the model
  has truthy endpoints that are not strictly equal, and two string endpoints are
  distinct ids: edges without a source or a target and self-loops are dropped.
\<close>

theorem initializeGraph_edges_distinct:
  assumes "initializeGraph c rnd raw = Built g"
  shows "\<exists>es. array_or_empty (js_get raw ''edges'') = Some es
     \<and> map (\<lambda>e. (e_source e, e_target e)) (g_edges g)
         = map (\<lambda>r. (js_get r ''source'', js_get r ''target''))
             (filter (\<lambda>r. truthy r \<and> truthy (js_get r ''source'') \<and> truthy (js_get r ''target'')
                          \<and> \<not> strict_eq (js_get r ''source'') (js_get r ''target'')) es)
     \<and> (\<forall>e \<in> set (g_edges g).
           truthy (e_source e) \<and> truthy (e_target e)
         \<and> \<not> strict_eq (e_source e) (e_target e)
         \<and> (\<forall>a b. e_source e = JStr a \<and> e_target e = JStr b \<longrightarrow> a \<noteq> b))"
proof -
  from assms obtain es where es: "array_or_empty (js_get raw ''edges'') = Some es"
    and edges: "g_edges g = map make_edge (filter keep_edge es)"
    by (rule initializeGraph_Built)
  have keep: "keep_edge = (\<lambda>r. truthy r \<and> truthy (js_get r ''source'') \<and> truthy (js_get r ''target'')
      \<and> \<not> strict_eq (js_get r ''source'') (js_get r ''target''))"
    by (rule ext) (simp add: keep_edge_def)
  have ends: "map (\<lambda>e. (e_source e, e_target e)) (g_edges g)
      = map (\<lambda>r. (js_get r ''source'', js_get r ''target'')) (filter keep_edge es)"
    by (simp add: edges make_edge_def comp_def)
  have each: "truthy (e_source e) \<and> truthy (e_target e)
      \<and> \<not> strict_eq (e_source e) (e_target e)
      \<and> (\<forall>a b. e_source e = JStr a \<and> e_target e = JStr b \<longrightarrow> a \<noteq> b)"
    if "e \<in> set (g_edges g)" for e
  proof -
    from that edges obtain r where r: "keep_edge r" "e = make_edge r" by auto
    from keep_edge_endpoints [OF r(1)] r(2)
    have *: "truthy (e_source e)" "truthy (e_target e)" "\<not> strict_eq (e_source e) (e_target e)"
      by simp_all
    from *(3) have "\<forall>a b. e_source e = JStr a \<and> e_target e = JStr b \<longrightarrow> a \<noteq> b"
      by auto
    with * show ?thesis by simp
  qed
  from es ends each show ?thesis
    unfolding keep by blast
qed

theorem initializeGraph_edges_distinct_witness:
  "\<exists>g. initializeGraph True (\<lambda>k. 0) raw_dangling = Built g
     \<and> map (\<lambda>e. (e_source e, e_target e)) (g_edges g) = [(JStr ''A'', JStr ''B'')]"
proof -
  obtain g where g: "initializeGraph True (\<lambda>k. 0) raw_dangling = Built g"
    by (simp add: initializeGraph_def raw_dangling_def array_or_empty_def)
  from initializeGraph_edges_distinct [OF g] raw_dangling_edges
  have "map (\<lambda>e. (e_source e, e_target e)) (g_edges g) = [(JStr ''A'', JStr ''B'')]"
    by auto
  with g show ?thesis by (intro exI [of _ g]) simp
qed

text \<open>
  C10, as stated, fails: a weight is replaced only when it is falsy. An input edge of
  weight one half keeps it, and one half is below 1.
\<close>

theorem initializeGraph_keeps_half_weight:
  "\<exists>g. initializeGraph True (\<lambda>k. 0) raw_half_weight = Built g
     \<and> map e_weight (g_edges g) = [JNum (1 / 2)]"
  by (simp add: initializeGraph_def raw_half_weight_def array_or_empty_def keep_edge_def
      make_edge_def js_or_def)

text \<open>
  C10, amended: the weights of the edges of a built model are, in order, those of the
  retained edges of the payload (the ones with a truthy source and a truthy target that
  are not strictly equal), each kept as it is when it is truthy, whatever its size or
  sign, and replaced by 1 when it is missing, 0 or otherwise falsy. Hence every weight in
  the model is truthy and never the number 0.
\<close>

theorem initializeGraph_weight_truthy:
  assumes "initializeGraph c rnd raw = Built g"
  shows "\<exists>es. array_or_empty (js_get raw ''edges'') = Some es
     \<and> map e_weight (g_edges g)
         = map (\<lambda>r. if truthy (js_get r ''weight'') then js_get r ''weight'' else JNum 1)
             (filter (\<lambda>r. truthy r \<and> truthy (js_get r ''source'') \<and> truthy (js_get r ''target'')
                          \<and> \<not> strict_eq (js_get r ''source'') (js_get r ''target'')) es)
     \<and> (\<forall>e \<in> set (g_edges g). truthy (e_weight e) \<and> e_weight e \<noteq> JNum 0)"
proof -
  from assms obtain es where es: "array_or_empty (js_get raw ''edges'') = Some es"
    and edges: "g_edges g = map make_edge (filter keep_edge es)"
    by (rule initializeGraph_Built)
  have w: "e_weight (make_edge r)
      = (if truthy (js_get r ''weight'') then js_get r ''weight'' else JNum 1)" for r
    by (simp add: make_edge_def js_or_def)
  have weights: "map e_weight (g_edges g)
      = map (\<lambda>r. if truthy (js_get r ''weight'') then js_get r ''weight'' else JNum 1)
          (filter keep_edge es)"
    by (simp add: edges w comp_def)
  have each: "truthy (e_weight e) \<and> e_weight e \<noteq> JNum 0" if "e \<in> set (g_edges g)" for e
  proof -
    from that edges obtain r where "e = make_edge r" by auto
    then have "truthy (e_weight e)" by (simp add: w)
    then show ?thesis by auto
  qed
  have keep: "keep_edge = (\<lambda>r. truthy r \<and> truthy (js_get r ''source'') \<and> truthy (js_get r ''target'')
      \<and> \<not> strict_eq (js_get r ''source'') (js_get r ''target''))"
    by (rule ext) (simp add: keep_edge_def)
  from es weights each show ?thesis
    unfolding keep by blast
qed

theorem initializeGraph_weight_truthy_witness:
  "\<exists>g. initializeGraph True (\<lambda>k. 0) raw_weights = Built g
     \<and> map e_weight (g_edges g) = [JNum 1, JNum 1, JNum (- 3)]"
proof -
  obtain g where g: "initializeGraph True (\<lambda>k. 0) raw_weights = Built g"
    by (simp add: initializeGraph_def raw_weights_def array_or_empty_def)
  from initializeGraph_weight_truthy [OF g] raw_weights_edges
  have "map e_weight (g_edges g) = [JNum 1, JNum 1, JNum (- 3)]"
    by auto
  with g show ?thesis by (intro exI [of _ g]) simp
qed

section \<open>Properties of the renderer's lifecycle\<close>

lemma load_on_sized_container:
  "containerReady (ready []) \<and> observing (ready []) \<and> inits (ready []) = 1"
  unfolding ready_def by code_simp

lemma resize_after_load_reinitialises_once:
  "inits (resize no_coercion [] 1024 768 (ready [])) = 2"
  unfolding ready_def by code_simp

lemma dangling_edge_fails_the_renderer:
  "error (load_effect no_coercion [] (\<lambda>k. 0) raw_dangling (mounted 800 600)) = Some RendererInitFailed
   \<and> containerReady (load_effect no_coercion [] (\<lambda>k. 0) raw_dangling (mounted 800 600)) = False"
  by code_simp

lemma zero_size_load_connects_no_observer:
  assumes "width st = 0 \<or> height st = 0" and "\<not> observing st"
  shows "\<not> observing (load_effect tn ill rnd graphData st)
     \<and> inits (load_effect tn ill rnd graphData st) = inits st
     \<and> (truthy graphData \<longrightarrow> \<not> containerReady (load_effect tn ill rnd graphData st))"
  using assms
  by (auto simp: load_effect_def initializeD3_def Let_def split: build_result.split)

lemma resize_without_observer:
  assumes "\<not> observing st"
  shows "resize tn ill w h st = st \<lparr> width := w, height := h \<rparr>"
  using assms by (simp add: resize_def Let_def)

text \<open>
  C9 fails on the code. The load effect runs on a container of 0 by 0: \<^verbatim>\<open>initializeD3\<close>
  returns \<^verbatim>\<open>null\<close>, so the effect never reaches \<^verbatim>\<open>setupResizeObserver\<close>. When the container
  then grows to 800 by 600 there is no observer to call \<^verbatim>\<open>initializeD3\<close>: nothing is drawn,
  no initialisation has run and \<^verbatim>\<open>containerReady\<close> is still false.
\<close>

theorem zero_size_load_is_never_retried:
  "let loaded = load_effect no_coercion [] (\<lambda>k. 0) raw_pair (mounted 0 0);
       resized = resize no_coercion [] 800 600 loaded
   in observing loaded = False
    \<and> width resized = 800 \<and> height resized = 600
    \<and> containerReady resized = False \<and> inits resized = 0 \<and> svgRef resized = None"
  by code_simp

section \<open>Properties of the drawing\<close>

lemma illicit_first_when_drawn:
  assumes "isIllicit illicitAddresses d"
  shows "c_fill (draw_circle tn illicitAddresses d) = Paint (JStr ''#ef4444'')
     \<and> c_stroke (draw_circle tn illicitAddresses d) = Paint (JStr ''#dc2626'')"
  using assms by (simp add: draw_circle_def node_fill_def node_stroke_def)

lemma built_nodes_are_circles:
  assumes "initializeGraph c rnd raw = Built g" and "d \<in> set (g_nodes g)"
  shows "n_type d = ''circle'' \<and> n_size d = 8 \<and> node_r tn d = Some 8"
proof -
  from assms(1) obtain ns where "g_nodes g = make_nodes rnd 0 (filter keep_node ns)"
    by (rule initializeGraph_Built)
  with assms(2) have "n_type d = ''circle'' \<and> n_size d = 8"
    by (simp add: make_nodes_type)
  then show ?thesis
    by (simp add: node_r_def)
qed

text \<open>
  C4 fails on the code. \<^verbatim>\<open>initializeGraph\<close> sets every node's \<^verbatim>\<open>type\<close> to \<^verbatim>\<open>'circle'\<close> and
  leaves the payload's \<^verbatim>\<open>type\<close> out of the copied fields, so the callbacks of
  \<^verbatim>\<open>initializeD3\<close> never see an address or a transaction. The address \<open>A\<close> with a balance
  of 9000000000 and the transaction \<open>B\<close> are both drawn with radius 8, the default fill
  and the default stroke; had the kind reached the callbacks, \<open>A\<close> would have radius 15
  and the fill of an address with a balance.
\<close>

theorem kind_never_reaches_the_callbacks:
  "map_option (map (n_type \<circ> c_datum)) (svgRef (ready [])) = Some [''circle'', ''circle'']
   \<and> map_option (map c_r) (svgRef (ready [])) = Some [Some 8, Some 8]
   \<and> map_option (map c_fill) (svgRef (ready []))
        = Some [Paint (JStr ''#6366f1''), Paint (JStr ''#6366f1'')]
   \<and> map_option (map c_stroke) (svgRef (ready []))
        = Some [Paint (JStr ''#111827''), Paint (JStr ''#111827'')]
   \<and> map_option (map (\<lambda>c. node_r no_coercion ((c_datum c) \<lparr> n_type := ''address'' \<rparr>)))
        (svgRef (ready [])) = Some [Some 15, Some 6]
   \<and> map_option (map (\<lambda>c. node_fill no_coercion [] ((c_datum c) \<lparr> n_type := ''address'' \<rparr>)))
        (svgRef (ready [])) = Some [JStr ''#10b981'', JStr ''#6b7280'']"
  unfolding ready_def by code_simp

section \<open>Properties of the community overlay\<close>

lemma position_append: "k \<in> set xs \<Longrightarrow> position (xs @ ys) k = position xs k"
  by (induction xs) auto

lemma first_seen_extends: "\<exists>ys. first_seen seen ks = seen @ ys"
proof (induction ks arbitrary: seen)
  case Nil
  then show ?case by simp
next
  case (Cons k ks)
  obtain ys where "first_seen (if k \<in> set seen then seen else seen @ [k]) ks
      = (if k \<in> set seen then seen else seen @ [k]) @ ys"
    using Cons.IH by blast
  then show ?case by (cases "k \<in> set seen") auto
qed

lemma position_first_seen:
  assumes "k \<in> set seen"
  shows "position (first_seen seen ks) k = position seen k"
proof -
  obtain ys where "first_seen seen ks = seen @ ys" using first_seen_extends by blast
  with assms show ?thesis by (simp add: position_append)
qed

lemma community_ids_Cons:
  "community_ids rt part (c # cs) =
     (case partition_read rt part (n_id (c_datum c)) of
        None \<Rightarrow> community_ids rt part cs
      | Some k \<Rightarrow> k # community_ids rt part cs)"
  by (simp add: community_ids_def List.map_filter_simps split: option.split)

lemma recolor_length: "length (recolor rt rng part seen cs) = length cs"
  by (induction cs arbitrary: seen) (auto simp: Let_def split: prod.split option.split)

lemma recolor_datum: "map c_datum (recolor rt rng part seen cs) = map c_datum cs"
  by (induction cs arbitrary: seen) (auto simp: Let_def split: prod.split option.split)

lemma recolor_r: "map c_r (recolor rt rng part seen cs) = map c_r cs"
  by (induction cs arbitrary: seen) (auto simp: Let_def split: prod.split option.split)

text \<open>The overlay reads the data bound to the circles, never their present paint.\<close>

lemma recolor_reads_data_only:
  assumes "map c_datum cs = map c_datum cs'" and "map c_r cs = map c_r cs'"
  shows "recolor rt rng part seen cs = recolor rt rng part seen cs'"
  using assms
proof (induction cs arbitrary: seen cs')
  case Nil
  then show ?case by simp
next
  case (Cons c cs)
  then obtain c' cs'' where cs': "cs' = c' # cs''" by (cases cs') auto
  with Cons.prems have eq: "c_datum c = c_datum c'" "c_r c = c_r c'"
    and rest: "map c_datum cs = map c_datum cs''" "map c_r cs = map c_r cs''"
    by simp_all
  have upd: "\<And>f s w. c \<lparr> c_fill := f, c_stroke := s, c_stroke_width := w \<rparr>
      = c' \<lparr> c_fill := f, c_stroke := s, c_stroke_width := w \<rparr>"
    using eq by (cases c, cases c') simp
  show ?case
    unfolding cs'
    by (simp add: Let_def eq(1) upd Cons.IH [OF rest] split: prod.split option.split)
qed

lemma apply_partition_over:
  "apply_partition tn rt data (apply_partition tn rt' data' cs) = apply_partition tn rt data cs"
  unfolding apply_partition_def
  by (rule recolor_reads_data_only) (simp_all add: recolor_datum recolor_r)

lemma recolor_paint:
  assumes "i < length cs" and "partition_read rt part (n_id (c_datum (cs ! i))) = Some k"
  shows "c_fill (recolor rt rng part seen cs ! i)
       = Paint (JStr (rng ! (position (first_seen seen (community_ids rt part cs)) k mod length rng)))
     \<and> c_stroke (recolor rt rng part seen cs ! i)
       = Darker (rng ! (position (first_seen seen (community_ids rt part cs)) k mod length rng))"
  using assms
proof (induction cs arbitrary: seen i)
  case Nil
  then show ?case by simp
next
  case (Cons c cs)
  let ?r = "partition_read rt part (n_id (c_datum c))"
  show ?case
  proof (cases i)
    case 0
    with Cons.prems have k: "?r = Some k" by simp
    let ?seen = "if k \<in> set seen then seen else seen @ [k]"
    have "k \<in> set ?seen" by auto
    then have pos: "position (first_seen ?seen (community_ids rt part cs)) k = position ?seen k"
      by (rule position_first_seen)
    have ids: "community_ids rt part (c # cs) = k # community_ids rt part cs"
      using k by (simp add: community_ids_Cons)
    show ?thesis
      using 0 k pos
      by (cases "k \<in> set seen") (simp_all add: ids colorScale_def Let_def split: prod.split)
  next
    case (Suc j)
    with Cons.prems have j: "j < length cs" "partition_read rt part (n_id (c_datum (cs ! j))) = Some k"
      by simp_all
    show ?thesis
    proof (cases ?r)
      case None
      then show ?thesis
        using Suc Cons.IH [OF j, of seen]
        by (simp add: community_ids_Cons)
    next
      case (Some k')
      then show ?thesis
        using Suc Cons.IH [OF j, of "if k' \<in> set seen then seen else seen @ [k']"]
        by (simp add: community_ids_Cons colorScale_def Let_def split: prod.split)
    qed
  qed
qed

text \<open>
  The overlays used below, on any two circles bound to the nodes \<open>A\<close> and \<open>B\<close>: both ids
  are own properties of the partition, so the runtime is not consulted.
\<close>

lemma two_circles:
  assumes "map (n_id \<circ> c_datum) cs = [a, b]"
  obtains c1 c2 where "cs = [c1, c2]" "n_id (c_datum c1) = a" "n_id (c_datum c2) = b"
  using assms by (cases cs; cases "tl cs") auto

lemma overlay_two_on_AB:
  assumes "map (n_id \<circ> c_datum) cs = [''A'', ''B'']"
  shows "map c_fill (apply_partition tn rt data_two cs)
       = [Paint (JStr ''#1f77b4''), Paint (JStr ''#ff7f0e'')]
     \<and> map c_stroke (apply_partition tn rt data_two cs) = [Darker ''#1f77b4'', Darker ''#ff7f0e'']"
proof -
  from assms obtain c1 c2 where "cs = [c1, c2]" "n_id (c_datum c1) = ''A''" "n_id (c_datum c2) = ''B''"
    by (rule two_circles)
  then show ?thesis
    by (simp add: apply_partition_def data_two_def palette_for_def to_number_def partition_read_def
        own_key_def colorScale_def schemeCategory10_def Let_def)
qed

lemma overlay_two_on_BA:
  assumes "map (n_id \<circ> c_datum) cs = [''B'', ''A'']"
  shows "map c_fill (apply_partition tn rt data_two cs)
       = [Paint (JStr ''#1f77b4''), Paint (JStr ''#ff7f0e'')]"
proof -
  from assms obtain c1 c2 where "cs = [c1, c2]" "n_id (c_datum c1) = ''B''" "n_id (c_datum c2) = ''A''"
    by (rule two_circles)
  then show ?thesis
    by (simp add: apply_partition_def data_two_def palette_for_def to_number_def partition_read_def
        own_key_def colorScale_def schemeCategory10_def Let_def)
qed


lemma overlay_no_modularity_on_AB:
  assumes "map (n_id \<circ> c_datum) cs = [''A'', ''B'']"
  shows "map c_fill (apply_partition tn rt data_no_modularity cs)
       = [Paint (JStr ''#1f77b4''), Paint (JStr ''#ff7f0e'')]"
proof -
  from assms obtain c1 c2 where "cs = [c1, c2]" "n_id (c_datum c1) = ''A''" "n_id (c_datum c2) = ''B''"
    by (rule two_circles)
  then show ?thesis
    by (simp add: apply_partition_def data_no_modularity_def palette_for_def to_number_def
        partition_read_def own_key_def colorScale_def schemeCategory10_def Let_def)
qed

lemma circle_of_id: "n_id (c_datum (circle_of s)) = s"
  by (simp add: circle_of_def draw_circle_def make_node_def coordinate_def Let_def)

text \<open>
  C7, as stated, fails in its second half: no function of the community index gives the
  fills of the overlay, whatever the runtime. Under one and the same partition, which
  puts \<open>A\<close> in community 0 and \<open>B\<close> in community 1, community 1 is painted with the second
  palette entry when the circles come in the order \<open>A\<close>, \<open>B\<close> and with the first when
  they come in the order \<open>B\<close>, \<open>A\<close>.
\<close>

theorem colour_is_not_a_function_of_the_index:
  "\<forall>tn rt. \<not> (\<exists>col. \<forall>cs i k.
        i < length cs \<longrightarrow>
        partition_read rt (js_get data_two ''partition'') (n_id (c_datum (cs ! i))) = Some k \<longrightarrow>
        c_fill (apply_partition tn rt data_two cs ! i) = col k)"
proof (intro allI notI)
  fix tn rt
  assume "\<exists>col. \<forall>cs i k.
        i < length cs \<longrightarrow>
        partition_read rt (js_get data_two ''partition'') (n_id (c_datum (cs ! i))) = Some k \<longrightarrow>
        c_fill (apply_partition tn rt data_two cs ! i) = col k"
  then obtain col where col: "\<And>cs i k.
        i < length cs \<Longrightarrow>
        partition_read rt (js_get data_two ''partition'') (n_id (c_datum (cs ! i))) = Some k \<Longrightarrow>
        c_fill (apply_partition tn rt data_two cs ! i) = col k"
    by blast
  have pB: "partition_read rt (js_get data_two ''partition'') ''B'' = Some (Value (PNum 1))"
    by (simp add: data_two_def partition_read_def own_key_def)
  have len: "length (apply_partition tn rt data_two cs) = length cs" for cs
    by (simp add: apply_partition_def recolor_length)
  have AB: "map c_fill (apply_partition tn rt data_two [circle_of ''A'', circle_of ''B''])
      = [Paint (JStr ''#1f77b4''), Paint (JStr ''#ff7f0e'')]"
    using overlay_two_on_AB [of "[circle_of ''A'', circle_of ''B'']" tn rt]
    by (simp add: circle_of_id)
  have BA: "map c_fill (apply_partition tn rt data_two [circle_of ''B'', circle_of ''A''])
      = [Paint (JStr ''#1f77b4''), Paint (JStr ''#ff7f0e'')]"
    using overlay_two_on_BA [of "[circle_of ''B'', circle_of ''A'']" tn rt]
    by (simp add: circle_of_id)
  have "c_fill (apply_partition tn rt data_two [circle_of ''A'', circle_of ''B''] ! 1)
      = col (Value (PNum 1))"
    using col [of 1 "[circle_of ''A'', circle_of ''B'']" "Value (PNum 1)"]
    by (simp add: circle_of_id pB)
  moreover have "c_fill (apply_partition tn rt data_two [circle_of ''A'', circle_of ''B''] ! 1)
      = Paint (JStr ''#ff7f0e'')"
    using arg_cong [OF AB, of "\<lambda>xs. xs ! 1"] by (simp add: len)
  moreover have "c_fill (apply_partition tn rt data_two [circle_of ''B'', circle_of ''A''] ! 0)
      = col (Value (PNum 1))"
    using col [of 0 "[circle_of ''B'', circle_of ''A'']" "Value (PNum 1)"]
    by (simp add: circle_of_id pB)
  moreover have "c_fill (apply_partition tn rt data_two [circle_of ''B'', circle_of ''A''] ! 0)
      = Paint (JStr ''#1f77b4'')"
    using arg_cong [OF BA, of "\<lambda>xs. xs ! 0"] by (simp add: len)
  ultimately show False by simp
qed

text \<open>
  C7, amended: applying the same partition twice gives the circles the same paint as
  applying it once, and a circle for which \<^verbatim>\<open>partition[d.id]\<close> is not \<^verbatim>\<open>undefined\<close> gets as
  fill the palette entry at the rank at which that value is first met when the circles
  are visited in order, modulo the size of the palette, and the darker shade of that
  entry as stroke. The colour follows the order of first encounter, not the value of the
  index; a circle whose id names an inherited member of the partition takes a rank too.
\<close>

theorem overlay_colour_by_first_encounter:
  "apply_partition tn rt data (apply_partition tn rt data cs) = apply_partition tn rt data cs
   \<and> (\<forall>i k. i < length cs
          \<and> partition_read rt (js_get data ''partition'') (n_id (c_datum (cs ! i))) = Some k \<longrightarrow>
        c_fill (apply_partition tn rt data cs ! i)
          = Paint (JStr (palette_for tn (js_get data ''num_communities'')
              ! (position (first_seen [] (community_ids rt (js_get data ''partition'') cs)) k
                 mod length (palette_for tn (js_get data ''num_communities'')))))
      \<and> c_stroke (apply_partition tn rt data cs ! i)
          = Darker (palette_for tn (js_get data ''num_communities'')
              ! (position (first_seen [] (community_ids rt (js_get data ''partition'') cs)) k
                 mod length (palette_for tn (js_get data ''num_communities'')))))"
proof (intro conjI allI impI)
  show "apply_partition tn rt data (apply_partition tn rt data cs) = apply_partition tn rt data cs"
    by (rule apply_partition_over)
next
  fix i k
  assume "i < length cs
      \<and> partition_read rt (js_get data ''partition'') (n_id (c_datum (cs ! i))) = Some k"
  then have i: "i < length cs"
    and k: "partition_read rt (js_get data ''partition'') (n_id (c_datum (cs ! i))) = Some k"
    by simp_all
  from recolor_paint [OF i k]
  show "c_fill (apply_partition tn rt data cs ! i)
      = Paint (JStr (palette_for tn (js_get data ''num_communities'')
          ! (position (first_seen [] (community_ids rt (js_get data ''partition'') cs)) k
             mod length (palette_for tn (js_get data ''num_communities'')))))"
    and "c_stroke (apply_partition tn rt data cs ! i)
      = Darker (palette_for tn (js_get data ''num_communities'')
          ! (position (first_seen [] (community_ids rt (js_get data ''partition'') cs)) k
             mod length (palette_for tn (js_get data ''num_communities''))))"
    by (simp_all add: apply_partition_def)
qed

theorem overlay_colour_by_first_encounter_witness:
  "apply_partition no_coercion inherits_constructor data_A
       (apply_partition no_coercion inherits_constructor data_A
          [circle_of ''constructor'', circle_of ''A''])
     = apply_partition no_coercion inherits_constructor data_A
         [circle_of ''constructor'', circle_of ''A'']
   \<and> c_fill (apply_partition no_coercion inherits_constructor data_A
               [circle_of ''constructor'', circle_of ''A''] ! 1)
     = Paint (JStr ''#ff7f0e'')
   \<and> c_stroke (apply_partition no_coercion inherits_constructor data_A
               [circle_of ''constructor'', circle_of ''A''] ! 1)
     = Darker ''#ff7f0e''"
proof -
  have ids: "community_ids inherits_constructor (js_get data_A ''partition'')
        [circle_of ''constructor'', circle_of ''A'']
      = [Foreign 0, Value (PNum 0)]"
    by code_simp
  have pal: "palette_for no_coercion (js_get data_A ''num_communities'') = schemeCategory10"
    by code_simp
  have rd: "partition_read inherits_constructor (js_get data_A ''partition'')
        (n_id (c_datum (circle_of ''A''))) = Some (Value (PNum 0))"
    by code_simp
  show ?thesis
    using overlay_colour_by_first_encounter
      [of no_coercion inherits_constructor data_A "[circle_of ''constructor'', circle_of ''A'']"]
    by (simp add: ids pal rd schemeCategory10_def)
qed

section \<open>Properties of the response handling\<close>


lemma runLouvainAlgorithm_resume_applies:
  assumes "res = HttpResponse True (Some result)"
    and "result \<noteq> JNull" and "result \<noteq> JUndefined"
    and "truthy (js_get result ''success'')"
    and "js_get result ''data'' \<noteq> JNull" and "js_get result ''data'' \<noteq> JUndefined"
    and "truthy (js_get (js_get result ''data'') ''partition'')"
  shows "svgRef (runLouvainAlgorithm_resume tn rt res st)
     = map_option (apply_partition tn rt (js_get result ''data'')) (svgRef st)"
  using assms
  by (auto simp: runLouvainAlgorithm_resume_def runLouvainAlgorithm_catch_def Let_def
      split: option.split jsval.split)



lemma louvain_two_applies:
  "svgRef (runLouvainAlgorithm_resume tn rt louvain_two st)
     = map_option (apply_partition tn rt data_two) (svgRef st)"
  using runLouvainAlgorithm_resume_applies
    [of louvain_two "JObj [(''success'', JBool True), (''data'', data_two)]" tn rt st]
  by (simp add: louvain_two_def data_two_def)


lemma louvain_no_modularity_applies:
  "svgRef (runLouvainAlgorithm_resume tn rt louvain_no_modularity st)
     = map_option (apply_partition tn rt data_no_modularity) (svgRef st)"
  using runLouvainAlgorithm_resume_applies
    [of louvain_no_modularity "JObj [(''success'', JBool True), (''data'', data_no_modularity)]"
        tn rt st]
  by (simp add: louvain_no_modularity_def data_no_modularity_def)

lemma louvain_no_modularity_fails:
  "error (runLouvainAlgorithm_resume tn rt louvain_no_modularity st) = Some CommunityDetectionFailed"
  by (simp add: runLouvainAlgorithm_resume_def runLouvainAlgorithm_catch_def
      louvain_no_modularity_def data_no_modularity_def Let_def)

lemma ready_circles:
  "map_option (map (n_id \<circ> c_datum)) (svgRef (ready [])) = Some [''A'', ''B'']"
  "map_option (map (n_id \<circ> c_datum)) (svgRef (ready flagged_A)) = Some [''A'', ''B'']"
  unfolding ready_def by code_simp+


text \<open>
  C3 fails on the code. With \<open>A\<close> flagged, \<^verbatim>\<open>initializeD3\<close> draws \<open>A\<close> in the flagged fill
  and stroke. The overlay of \<^verbatim>\<open>runLouvainAlgorithm\<close> does not consult the illicit
  list: once the partition arrives, \<open>A\<close> has the fill of its community and a darker
  shade of it as stroke.
\<close>

theorem overlay_recolours_flagged_node:
  "let drawn = ready flagged_A;
       merged = runLouvainAlgorithm_resume no_coercion rt louvain_two drawn
   in map_option (map c_fill) (svgRef drawn)
        = Some [Paint (JStr ''#ef4444''), Paint (JStr ''#6366f1'')]
    \<and> map_option (map c_stroke) (svgRef drawn)
        = Some [Paint (JStr ''#dc2626''), Paint (JStr ''#111827'')]
    \<and> map_option (map c_fill) (svgRef merged)
        = Some [Paint (JStr ''#1f77b4''), Paint (JStr ''#ff7f0e'')]
    \<and> map_option (map c_stroke) (svgRef merged)
        = Some [Darker ''#1f77b4'', Darker ''#ff7f0e'']"
proof -
  have drawn: "map_option (map c_fill) (svgRef (ready flagged_A))
        = Some [Paint (JStr ''#ef4444''), Paint (JStr ''#6366f1'')]"
      "map_option (map c_stroke) (svgRef (ready flagged_A))
        = Some [Paint (JStr ''#dc2626''), Paint (JStr ''#111827'')]"
    unfolding ready_def by code_simp+
  from ready_circles(2) obtain cs where cs: "svgRef (ready flagged_A) = Some cs"
    and ids: "map (n_id \<circ> c_datum) cs = [''A'', ''B'']"
    by auto
  have "svgRef (runLouvainAlgorithm_resume no_coercion rt louvain_two (ready flagged_A))
      = Some (apply_partition no_coercion rt data_two cs)"
    by (simp add: louvain_two_applies cs)
  with overlay_two_on_AB [OF ids, of no_coercion rt] drawn show ?thesis
    by (simp add: Let_def)
qed




text \<open>
  Every failed attempt but one leaves the drawing as it was: the fetch is rejected, the
  response is not ok, its body is not JSON, the result is \<^verbatim>\<open>null\<close>, its \<^verbatim>\<open>success\<close> is
  falsy, it has no \<^verbatim>\<open>data\<close>, or its \<^verbatim>\<open>data\<close> has no truthy partition. A drawing that has
  changed has been given the partition of a success response.
\<close>

lemma early_failure_leaves_colouring:
  assumes "res = FetchRejected \<or> (\<exists>body. res = HttpResponse False body)
     \<or> res = HttpResponse True None
     \<or> (\<exists>result. res = HttpResponse True (Some result)
          \<and> (result = JNull \<or> result = JUndefined \<or> \<not> truthy (js_get result ''success'')
              \<or> js_get result ''data'' = JNull \<or> js_get result ''data'' = JUndefined))"
  shows "error (runLouvainAlgorithm_resume tn rt res st) = Some CommunityDetectionFailed
     \<and> svgRef (runLouvainAlgorithm_resume tn rt res st) = svgRef st"
  using assms
  by (auto simp: runLouvainAlgorithm_resume_def runLouvainAlgorithm_catch_def Let_def
      split: option.split)

lemma no_partition_leaves_colouring:
  assumes "res = HttpResponse ok (Some result)"
    and "\<not> truthy (js_get (js_get result ''data'') ''partition'')"
  shows "svgRef (runLouvainAlgorithm_resume tn rt res st) = svgRef st"
  using assms
  by (auto simp: runLouvainAlgorithm_resume_def runLouvainAlgorithm_catch_def Let_def
      split: option.split jsval.split)

lemma repainted_only_by_a_partition:
  assumes "svgRef (runLouvainAlgorithm_resume tn rt res st) \<noteq> svgRef st"
  shows "\<exists>result. res = HttpResponse True (Some result)
     \<and> truthy (js_get result ''success'')
     \<and> truthy (js_get (js_get result ''data'') ''partition'')"
  using assms
  by (auto simp: runLouvainAlgorithm_resume_def runLouvainAlgorithm_catch_def Let_def
      split: fetch_result.splits option.splits jsval.splits if_splits)

lemma refused_response_leaves_colouring:
  "error (runLouvainAlgorithm_resume tn rt louvain_refused st) = Some CommunityDetectionFailed
   \<and> svgRef (runLouvainAlgorithm_resume tn rt louvain_refused st) = svgRef st"
  using early_failure_leaves_colouring [of louvain_refused tn rt st]
  by (simp add: louvain_refused_def)

text \<open>
  C8 fails on the code for one malformed response. A response that reports success and
  carries a partition but no modularity has its partition painted before
  \<^verbatim>\<open>data.modularity.toFixed(3)\<close> throws: the error is surfaced and the fills have changed.
\<close>

theorem malformed_response_paints_then_fails:
  "let failed = runLouvainAlgorithm_resume no_coercion rt louvain_no_modularity (ready [])
   in error (ready []) = None \<and> error failed = Some CommunityDetectionFailed
    \<and> map_option (map c_fill) (svgRef (ready []))
         = Some [Paint (JStr ''#6366f1''), Paint (JStr ''#6366f1'')]
    \<and> map_option (map c_fill) (svgRef failed)
         = Some [Paint (JStr ''#1f77b4''), Paint (JStr ''#ff7f0e'')]"
proof -
  have before: "error (ready []) = None"
      "map_option (map c_fill) (svgRef (ready []))
        = Some [Paint (JStr ''#6366f1''), Paint (JStr ''#6366f1'')]"
    unfolding ready_def by code_simp+
  from ready_circles(1) obtain cs where cs: "svgRef (ready []) = Some cs"
    and ids: "map (n_id \<circ> c_datum) cs = [''A'', ''B'']"
    by auto
  have "svgRef (runLouvainAlgorithm_resume no_coercion rt louvain_no_modularity (ready []))
      = Some (apply_partition no_coercion rt data_no_modularity cs)"
    by (simp add: louvain_no_modularity_applies cs)
  with overlay_no_modularity_on_AB [OF ids, of no_coercion rt] before louvain_no_modularity_fails
  show ?thesis
    by (simp add: Let_def)
qed

section \<open>Properties of the zoom\<close>

lemma wheel_is_clamped:
  "1 / 10 \<le> zoom_k (zoom_step (Wheel f) v) \<and> zoom_k (zoom_step (Wheel f) v) \<le> 10"
proof -
  let ?k = "scaleBy attached_extent (zoom_k v) f"
  have k: "1 / 10 \<le> ?k \<and> ?k \<le> 10"
    by (simp add: scaleBy_def clamp_scale_def attached_extent_def)
  show ?thesis
  proof (cases "?k = zoom_k v")
    case True
    with k show ?thesis by (simp add: Let_def)
  next
    case False
    with k show ?thesis by (simp add: Let_def)
  qed
qed

lemma zoom_in_steps:
  assumes "0 \<le> zoom_k v"
  shows "zoom_k (zoom_run (replicate n ZoomIn) v) = zoom_k v * (6 / 5) ^ n"
  using assms
proof (induction n arbitrary: v)
  case 0
  then show ?case by (simp add: zoom_run_def)
next
  case (Suc n)
  have k: "zoom_k (zoom_step ZoomIn v) = zoom_k v * (6 / 5)"
    using Suc.prems by (simp add: scaleBy_def clamp_scale_def fresh_extent_def)
  then have "0 \<le> zoom_k (zoom_step ZoomIn v)"
    using Suc.prems by simp
  from Suc.IH [OF this] k show ?case
    by (simp add: zoom_run_def)
qed

text \<open>
  C5 fails on the code. \<^verbatim>\<open>zoomIn\<close> and \<^verbatim>\<open>zoomOut\<close> do not call the behaviour that carries
  the extent \<^verbatim>\<open>[0.1, 10]\<close>: each makes a new \<^verbatim>\<open>d3.zoom()\<close>, whose extent is unbounded.
  Thirteen clicks on the zoom-in button take the stored scale from 1 to
  \<open>(6/5) ^ 13\<close>, above 10, and thirteen clicks on zoom-out take it below 0.1; the next
  drag of the canvas hands the listener that scale, so the shown zoom level leaves the
  range too.
\<close>

theorem zoom_buttons_escape_the_extent:
  "let zoomed_in = zoom_run (replicate 13 ZoomIn) initial_viewport;
       zoomed_out = zoom_run (replicate 13 ZoomOut) initial_viewport
   in zoom_k zoomed_in = 13060694016 / 1220703125 \<and> 10 < zoom_k zoomed_in
    \<and> zoom_k zoomed_out = 1220703125 / 13060694016 \<and> zoom_k zoomed_out < 1 / 10
    \<and> 10 < zoomLevel (zoom_step Pan zoomed_in)
    \<and> zoomLevel (zoom_step Pan zoomed_out) < 1 / 10"
  by code_simp

section \<open>Properties of dragging under the simulation\<close>

lemma length_apply_forces: "length (apply_forces F ns) = length ns"
  by (simp add: apply_forces_def)

lemma length_tick: "length (tick d F ns) = length ns"
  by (simp add: tick_def length_apply_forces)

lemma nth_apply_forces:
  assumes "i < length ns"
  shows "apply_forces F ns ! i =
    (case F ns i of (a, b, c, e) \<Rightarrow> (ns ! i) \<lparr> p_x := a, p_y := b, p_vx := c, p_vy := e \<rparr>)"
  using assms by (simp add: apply_forces_def nth_enumerate_eq)

lemma nth_tick:
  assumes "i < length ns"
  shows "tick d F ns ! i = integrate d (apply_forces F ns ! i)"
  using assms by (simp add: tick_def length_apply_forces)

lemma tick_pinned:
  assumes "i < length ns" and "p_fx (ns ! i) = Some a" and "p_fy (ns ! i) = Some b"
  shows "p_x (tick d F ns ! i) = a \<and> p_y (tick d F ns ! i) = b
    \<and> p_fx (tick d F ns ! i) = Some a \<and> p_fy (tick d F ns ! i) = Some b"
  using assms
  by (simp add: nth_tick nth_apply_forces integrate_def split: prod.split)

lemma ticks_pinned:
  assumes "i < length ns" and "p_fx (ns ! i) = Some a" and "p_fy (ns ! i) = Some b"
    and "Fs \<noteq> []"
  shows "p_x (ticks d Fs ns ! i) = a \<and> p_y (ticks d Fs ns ! i) = b"
  using assms
proof (induction Fs arbitrary: ns)
  case Nil
  then show ?case by simp
next
  case (Cons F Fs)
  let ?ns = "tick d F ns"
  have len: "i < length ?ns" using Cons.prems(1) by (simp add: length_tick)
  have pin: "p_x (?ns ! i) = a \<and> p_y (?ns ! i) = b \<and> p_fx (?ns ! i) = Some a \<and> p_fy (?ns ! i) = Some b"
    using tick_pinned [OF Cons.prems(1-3)] .
  show ?case
  proof (cases "Fs = []")
    case True
    with pin show ?thesis by (simp add: ticks_def)
  next
    case False
    from Cons.IH [OF len _ _ False] pin show ?thesis by (simp add: ticks_def)
  qed
qed

lemma tick_released:
  assumes "i < length ns" and "p_fx (ns ! i) = None" and "p_fy (ns ! i) = None"
    and "F ns i = (a, b, c, e)"
  shows "p_x (tick d F ns ! i) = a + c * d \<and> p_y (tick d F ns ! i) = b + e * d"
  using assms
  by (simp add: nth_tick nth_apply_forces integrate_def)

text \<open>
  C6: while a node is pinned, after one tick or more, whatever the forces, its
  position is the pinned one: the position it had when \<^verbatim>\<open>start\<close> pinned it, or the pointer
  position the last \<^verbatim>\<open>drag\<close> event gave. After \<^verbatim>\<open>end\<close> has cleared the pin, the next tick
  moves the node from where the forces left it by its decayed velocity.
\<close>

theorem pinned_node_follows_drag:
  assumes "i < length ns"
  shows "(Fs \<noteq> [] \<longrightarrow>
            p_x (ticks d Fs (on_node i dragstarted ns) ! i) = p_x (ns ! i)
          \<and> p_y (ticks d Fs (on_node i dragstarted ns) ! i) = p_y (ns ! i))
     \<and> (Fs \<noteq> [] \<longrightarrow>
            p_x (ticks d Fs (on_node i (dragged (ex, ey)) ns) ! i) = ex
          \<and> p_y (ticks d Fs (on_node i (dragged (ex, ey)) ns) ! i) = ey)
     \<and> (F (on_node i dragended ns) i = (a, b, c, e) \<longrightarrow>
            p_x (tick d F (on_node i dragended ns) ! i) = a + c * d
          \<and> p_y (tick d F (on_node i dragended ns) ! i) = b + e * d)"
proof (intro conjI impI)
  assume Fs: "Fs \<noteq> []"
  let ?ns = "on_node i dragstarted ns"
  have "i < length ?ns" "p_fx (?ns ! i) = Some (p_x (ns ! i))" "p_fy (?ns ! i) = Some (p_y (ns ! i))"
    using assms by (simp_all add: on_node_def dragstarted_def)
  from ticks_pinned [OF this Fs]
  show "p_x (ticks d Fs ?ns ! i) = p_x (ns ! i)" "p_y (ticks d Fs ?ns ! i) = p_y (ns ! i)"
    by simp_all
next
  assume Fs: "Fs \<noteq> []"
  let ?ns = "on_node i (dragged (ex, ey)) ns"
  have "i < length ?ns" "p_fx (?ns ! i) = Some ex" "p_fy (?ns ! i) = Some ey"
    using assms by (simp_all add: on_node_def dragged_def)
  from ticks_pinned [OF this Fs]
  show "p_x (ticks d Fs ?ns ! i) = ex" "p_y (ticks d Fs ?ns ! i) = ey"
    by simp_all
next
  assume F: "F (on_node i dragended ns) i = (a, b, c, e)"
  let ?ns = "on_node i dragended ns"
  have "i < length ?ns" "p_fx (?ns ! i) = None" "p_fy (?ns ! i) = None"
    using assms by (simp_all add: on_node_def dragended_def)
  from tick_released [of i ?ns F a b c e d, OF this F]
  show "p_x (tick d F ?ns ! i) = a + c * d" "p_y (tick d F ?ns ! i) = b + e * d"
    by simp_all
qed

theorem pinned_node_follows_drag_witness:
  "p_x (ticks (3 / 5) [drift, drift] (on_node 0 dragstarted two_nodes) ! 0) = 0
   \<and> p_y (ticks (3 / 5) [drift, drift] (on_node 0 dragstarted two_nodes) ! 0) = 0
   \<and> p_x (ticks (3 / 5) [drift, drift] (on_node 0 (dragged (5, 7)) two_nodes) ! 0) = 5
   \<and> p_y (ticks (3 / 5) [drift, drift] (on_node 0 (dragged (5, 7)) two_nodes) ! 0) = 7
   \<and> p_x (tick (3 / 5) drift (on_node 0 dragended two_nodes) ! 0) = 3 + 1 * (3 / 5)
   \<and> p_y (tick (3 / 5) drift (on_node 0 dragended two_nodes) ! 0) = 4 + 2 * (3 / 5)"
proof -
  have len: "0 < length two_nodes"
    by (simp add: two_nodes_def)
  have F: "drift (on_node 0 dragended two_nodes) 0 = (3, 4, 1, 2)"
    by (simp add: drift_def on_node_def dragended_def two_nodes_def)
  have p0: "p_x (two_nodes ! 0) = 0" "p_y (two_nodes ! 0) = 0"
    by (simp_all add: two_nodes_def)
  show ?thesis
    using pinned_node_follows_drag [OF len, of "[drift, drift]" "3 / 5" 5 7 drift 3 4 1 2] F p0
    by simp
qed

end
